theory Spec2Isabelle
  imports Complex_Main "HOL-Library.AList"
begin

section \<open>Data model of \<^verbatim>\<open>src/app1.py\<close>\<close>

text \<open>
  \<^verbatim>\<open>class SaleType(Enum)\<close> with its two members; \<open>SaleType_value\<close> is the
  member's \<^verbatim>\<open>.value\<close>, the string that \<^verbatim>\<open>process_sale\<close> stores in a sale record and
  that \<^verbatim>\<open>get_sales_report\<close> compares against.
\<close>

datatype SaleType = WHOLESALE | RETAIL

fun SaleType_value :: "SaleType \<Rightarrow> string" where
  "SaleType_value WHOLESALE = ''wholesale''"
| "SaleType_value RETAIL = ''retail''"

text \<open>
  The dataclass \<^verbatim>\<open>Computer\<close>. The field \<^verbatim>\<open>id\<close> is written \<open>id'\<close> (\<open>id\<close> is the
  identity function of HOL). Prices are annotated \<^verbatim>\<open>float\<close> in the source; they are
  modelled as real numbers, so the rounding of binary floating point is not part of
  this development; the failure of the conversion of a large integer to a float is
  (\<open>int_to_float\<close> below). \<^verbatim>\<open>stock\<close> is a Python integer, unbounded and signed.
\<close>

record Computer =
  id' :: string
  brand :: string
  model :: string
  specs :: "(string \<times> string) list"
  wholesale_price :: real
  retail_price :: real
  stock :: int

text \<open>
  A naive \<^verbatim>\<open>datetime.datetime\<close>, as the number of microseconds since
  \<^verbatim>\<open>datetime.datetime.min\<close>; the order of the numbers is the order of the datetimes.
\<close>

type_synonym datetime = nat

definition datetime_min :: datetime where
  "datetime_min = 0"

text \<open>
  The dictionary that \<^verbatim>\<open>process_sale\<close> builds (lines 60-67), one field for each of its
  six keys. \<open>sale_type\<close> holds \<^verbatim>\<open>sale_type.value\<close>, a string.
\<close>

record sale_record =
  date :: datetime
  computer_id :: string
  quantity :: int
  sale_type :: string
  total_price :: real
  unit_price :: real

text \<open>
  The two attributes of \<^verbatim>\<open>ComputerInventory\<close>. The dictionary \<^verbatim>\<open>computers\<close> is an
  association list in insertion order: \<open>AList.update\<close> overwrites the value of a key
  that is present where it stands and appends a new key at the end, which is what
  assignment to a Python dictionary does; \<open>AList.delete\<close> is \<^verbatim>\<open>del\<close>. Each key holds
  its own \<^verbatim>\<open>Computer\<close> object.
\<close>

record ComputerInventory =
  computers :: "(string \<times> Computer) list"
  sales_history :: "sale_record list"

datatype error = ValueError string | OverflowError string

section \<open>Operations\<close>

text \<open>
  Every method takes the inventory and returns the inventory after the call, next to
  its result when it has one. A method that raises returns \<open>Inl\<close> of the exception.
\<close>

definition init :: ComputerInventory where
  "init = \<lparr>computers = [], sales_history = []\<rparr>"

definition add_computer :: "ComputerInventory \<Rightarrow> Computer \<Rightarrow> ComputerInventory" where
  "add_computer self computer =
     self\<lparr>computers := AList.update (id' computer) computer (computers self)\<rparr>"

definition remove_computer :: "ComputerInventory \<Rightarrow> string \<Rightarrow> ComputerInventory" where
  "remove_computer self cid =
     (if cid \<in> fst ` set (computers self)
      then self\<lparr>computers := AList.delete cid (computers self)\<rparr>
      else self)"

definition update_stock :: "ComputerInventory \<Rightarrow> string \<Rightarrow> int \<Rightarrow> bool \<times> ComputerInventory" where
  "update_stock self cid qty =
     (case map_of (computers self) cid of
        Some computer \<Rightarrow>
          (True, self\<lparr>computers :=
                   AList.update cid (computer\<lparr>stock := stock computer + qty\<rparr>) (computers self)\<rparr>)
      | None \<Rightarrow> (False, self))"

text \<open>
  The product of a float and an integer, \<^verbatim>\<open>price * quantity\<close> (line 54) and
  \<^verbatim>\<open>c.stock * c.wholesale_price\<close> (lines 77 and 80). Python first converts the integer
  operand to a float, and the conversion raises
  \<^verbatim>\<open>OverflowError("int too large to convert to float")\<close> when the integer does not round to
  a finite double: when its magnitude is at least \<open>2 ^ 1024 - 2 ^ 970\<close>, the midpoint
  between the largest double and \<open>2 ^ 1024\<close>. The product of the two floats raises nothing.
\<close>

definition float_range :: "int \<Rightarrow> bool" where
  "float_range n = (\<bar>n\<bar> < 2 ^ 1024 - 2 ^ 970)"

definition int_to_float :: "int \<Rightarrow> error + real" where
  "int_to_float n =
     (if float_range n then Inr (of_int n)
      else Inl (OverflowError ''int too large to convert to float''))"

definition mul_float_int :: "real \<Rightarrow> int \<Rightarrow> error + real" where
  "mul_float_int x n = (case int_to_float n of Inl e \<Rightarrow> Inl e | Inr y \<Rightarrow> Inr (x * y))"

definition mul_int_float :: "int \<Rightarrow> real \<Rightarrow> error + real" where
  "mul_int_float n x = (case int_to_float n of Inl e \<Rightarrow> Inl e | Inr y \<Rightarrow> Inr (y * x))"

text \<open>
  \<^verbatim>\<open>process_sale(computer_id, quantity, sale_type)\<close>, with the arguments written \<open>cid\<close>,
  \<open>qty\<close> and \<open>stype\<close>. The source reads the wall clock, \<^verbatim>\<open>datetime.datetime.now()\<close>, while
  it builds the record (line 61); the method has no parameter for it. \<open>now\<close> is that
  reading: an input from the environment, not an argument of the call. The product of
  line 54 comes after the two checks and before the assignment to the stock (line 57), so
  a call in which it raises leaves the inventory as it was.
\<close>

definition process_sale ::
  "ComputerInventory \<Rightarrow> datetime \<Rightarrow> string \<Rightarrow> int \<Rightarrow> SaleType
     \<Rightarrow> (error + sale_record) \<times> ComputerInventory" where
  "process_sale self now cid qty stype =
     (case map_of (computers self) cid of
        None \<Rightarrow> (Inl (ValueError ''Computer not found''), self)
      | Some computer \<Rightarrow>
          if stock computer < qty then (Inl (ValueError ''Insufficient stock''), self)
          else
            let price = (if stype = WHOLESALE then wholesale_price computer
                         else retail_price computer)
            in (case mul_float_int price qty of
                  Inl e \<Rightarrow> (Inl e, self)
                | Inr total_price' \<Rightarrow>
                    let computer' = computer\<lparr>stock := stock computer - qty\<rparr>;
                        sale = \<lparr>date = now, computer_id = cid, quantity = qty,
                                sale_type = SaleType_value stype,
                                total_price = total_price', unit_price = price\<rparr>
                    in (Inr sale,
                        self\<lparr>computers := AList.update cid computer' (computers self),
                            sales_history := sales_history self @ [sale]\<rparr>)))"

text \<open>
  \<^verbatim>\<open>get_inventory_report\<close> (lines 71-82). \<open>map snd\<close> of the association list is
  \<^verbatim>\<open>self.computers.values()\<close>. \<^verbatim>\<open>sum\<close> adds from the left starting at 0: over the stocks,
  which are integers, it is \<open>sum_list\<close>; over the products, \<open>sum_from 0\<close> takes the
  summands one by one and stops at the first product that raises. The entries of the
  dictionary are evaluated in the order in which they are written. The method assigns to
  nothing, so the inventory it returns is the one it got, also when it raises.
\<close>

fun sum_from :: "real \<Rightarrow> ('a \<Rightarrow> error + real) \<Rightarrow> 'a list \<Rightarrow> error + real" where
  "sum_from acc f [] = Inr acc"
| "sum_from acc f (x # xs) =
     (case f x of Inl e \<Rightarrow> Inl e | Inr v \<Rightarrow> sum_from (acc + v) f xs)"

record inventory_report =
  total_computers :: nat
  total_stock :: int
  total_wholesale_value :: real
  total_retail_value :: real

definition get_inventory_report ::
  "ComputerInventory \<Rightarrow> (error + inventory_report) \<times> ComputerInventory" where
  "get_inventory_report self =
     (let n = length (computers self);
          units = sum_list (map (\<lambda>c. stock c) (map snd (computers self)))
      in case sum_from 0 (\<lambda>c. mul_int_float (stock c) (wholesale_price c))
                (map snd (computers self)) of
           Inl e \<Rightarrow> (Inl e, self)
         | Inr wholesale \<Rightarrow>
             (case sum_from 0 (\<lambda>c. mul_int_float (stock c) (retail_price c))
                     (map snd (computers self)) of
                Inl e \<Rightarrow> (Inl e, self)
              | Inr retail \<Rightarrow>
                  (Inr \<lparr>total_computers = n, total_stock = units,
                        total_wholesale_value = wholesale, total_retail_value = retail\<rparr>,
                   self)))"

text \<open>
  \<^verbatim>\<open>get_sales_report(start_date=None)\<close> (lines 84-110). The optional argument is an
  \<open>option\<close>; \<open>None\<close> stands for \<^verbatim>\<open>datetime.datetime.min\<close>.
\<close>

record sales_report =
  total_sales :: nat
  wholesale_revenue :: real
  retail_revenue :: real
  total_revenue :: real

definition get_sales_report ::
  "ComputerInventory \<Rightarrow> datetime option \<Rightarrow> sales_report \<times> ComputerInventory" where
  "get_sales_report self start_date =
     (let start = (case start_date of None \<Rightarrow> datetime_min | Some d \<Rightarrow> d);
          filtered_sales = filter (\<lambda>sale. start \<le> date sale) (sales_history self);
          wholesale_sales =
            sum_list (map total_price
              (filter (\<lambda>sale. sale_type sale = SaleType_value WHOLESALE) filtered_sales));
          retail_sales =
            sum_list (map total_price
              (filter (\<lambda>sale. sale_type sale = SaleType_value RETAIL) filtered_sales))
      in (\<lparr>total_sales = length filtered_sales,
           wholesale_revenue = wholesale_sales,
           retail_revenue = retail_sales,
           total_revenue = wholesale_sales + retail_sales\<rparr>,
          self))"

section \<open>Sequences of sales and the example of \<^verbatim>\<open>main\<close>\<close>

text \<open>
  A sequence of calls of \<open>process_sale\<close>, each with the clock reading of its moment. The
  run stops at the first call that raises, as a caller that does not catch the
  exception would; it returns the inventory after the last call when every call
  succeeded.
\<close>

type_synonym sale_call = "datetime \<times> string \<times> int \<times> SaleType"

fun process_sales :: "ComputerInventory \<Rightarrow> sale_call list \<Rightarrow> error + ComputerInventory" where
  "process_sales self [] = Inr self"
| "process_sales self ((now, cid, qty, stype) # calls) =
     (case process_sale self now cid qty stype of
        (Inl e, _) \<Rightarrow> Inl e
      | (Inr _, self') \<Rightarrow> process_sales self' calls)"

text \<open>
  The computer that \<^verbatim>\<open>main\<close> builds (lines 118-130), the inventory after
  \<^verbatim>\<open>inventory.add_computer(sample_computer)\<close>, and the inventory after the two sales of
  \<^verbatim>\<open>main\<close> (lines 136-148), taken at the clock readings 1000 and 2000.
\<close>

definition sample_computer :: Computer where
  "sample_computer =
     \<lparr>id' = ''LP001'', brand = ''LaptopBrand'', model = ''Pro2024'',
      specs = [(''processor'', ''Intel i7''), (''ram'', ''16GB''), (''storage'', ''512GB SSD'')],
      wholesale_price = 800, retail_price = 1200, stock = 10\<rparr>"

definition sample_inventory :: ComputerInventory where
  "sample_inventory = add_computer init sample_computer"

definition sample_calls :: "sale_call list" where
  "sample_calls = [(1000, ''LP001'', 3, WHOLESALE), (2000, ''LP001'', 1, RETAIL)]"

definition sample_after_sales :: ComputerInventory where
  "sample_after_sales =
     snd (process_sale (snd (process_sale sample_inventory 1000 ''LP001'' 3 WHOLESALE))
            2000 ''LP001'' 1 RETAIL)"

text \<open>An inventory with a second computer, added after the two sales.\<close>

definition second_computer :: Computer where
  "second_computer =
     \<lparr>id' = ''DT002'', brand = ''DesktopBrand'', model = ''Tower'',
      specs = [(''ram'', ''32GB'')],
      wholesale_price = 500, retail_price = 750, stock = 4\<rparr>"

definition two_computers :: ComputerInventory where
  "two_computers = add_computer sample_after_sales second_computer"

text \<open>
  The inventory of \<^verbatim>\<open>main\<close> after \<^verbatim>\<open>inventory.update_stock("LP001", 2**1024 - 10)\<close>: the
  stock of the computer is \<open>2 ^ 1024\<close>.
\<close>

definition restocked :: ComputerInventory where
  "restocked = snd (update_stock sample_inventory ''LP001'' (2 ^ 1024 - 10))"

section \<open>The catalog and the ledger as the specification describes them\<close>

text \<open>
  The specification speaks of a catalog, a mapping from item id to item with unique
  keys, and of sums over all its items. \<open>catalog\<close> is the dictionary as a map, and
  \<open>over_items\<close> the sum of a quantity over the items of a map, one summand for each key.
  The keys of a Python dictionary are distinct; \<open>unique_ids\<close> says so of the
  association list.
\<close>

definition catalog :: "ComputerInventory \<Rightarrow> string \<rightharpoonup> Computer" where
  "catalog self = map_of (computers self)"

definition unique_ids :: "ComputerInventory \<Rightarrow> bool" where
  "unique_ids self = distinct (map fst (computers self))"

definition over_items :: "(string \<rightharpoonup> Computer) \<Rightarrow> (Computer \<Rightarrow> 'a::comm_monoid_add) \<Rightarrow> 'a" where
  "over_items m f = (\<Sum>k \<in> dom m. f (the (m k)))"

text \<open>
  The positions of the ledger whose record has a timestamp at or after \<open>t\<close>, and those
  among them whose record is of a given sale type; the sum of \<open>total_price\<close> over a set
  of positions.
\<close>

definition since :: "sale_record list \<Rightarrow> datetime \<Rightarrow> nat set" where
  "since ledger t = {i. i < length ledger \<and> t \<le> date (ledger ! i)}"

definition since_of_type :: "sale_record list \<Rightarrow> datetime \<Rightarrow> SaleType \<Rightarrow> nat set" where
  "since_of_type ledger t stype =
     {i. i < length ledger \<and> t \<le> date (ledger ! i) \<and> sale_type (ledger ! i) = SaleType_value stype}"

definition revenue :: "sale_record list \<Rightarrow> nat set \<Rightarrow> real" where
  "revenue ledger I = (\<Sum>i \<in> I. total_price (ledger ! i))"

definition all_stock_nonneg :: "ComputerInventory \<Rightarrow> bool" where
  "all_stock_nonneg self = list_all (\<lambda>(k, c). 0 \<le> stock c) (computers self)"

definition stocks_in_float_range :: "ComputerInventory \<Rightarrow> bool" where
  "stocks_in_float_range self = list_all (\<lambda>(k, c). float_range (stock c)) (computers self)"

definition quantities_positive :: "sale_call list \<Rightarrow> bool" where
  "quantities_positive calls = list_all (\<lambda>(now, cid, qty, stype). 0 < qty) calls"

section \<open>What a call of \<open>process_sale\<close> does\<close>

text \<open>The definitions that evaluate the example of \<^verbatim>\<open>main\<close>.\<close>

lemmas sample_defs =
  sample_after_sales_def sample_inventory_def sample_computer_def add_computer_def init_def
  process_sale_def Let_def mul_float_int_def int_to_float_def float_range_def

lemma list_all_update:
  "list_all P al \<Longrightarrow> P (k, v) \<Longrightarrow> list_all P (AList.update k v al)"
  by (induction al) auto

lemma mul_float_int_cases:
  "mul_float_int x n =
     (if float_range n then Inr (x * of_int n)
      else Inl (OverflowError ''int too large to convert to float''))"
  by (simp add: mul_float_int_def int_to_float_def)

lemma mul_int_float_cases:
  "mul_int_float n x =
     (if float_range n then Inr (of_int n * x)
      else Inl (OverflowError ''int too large to convert to float''))"
  by (simp add: mul_int_float_def int_to_float_def)

lemma process_sale_raises:
  "process_sale self now cid qty stype = (Inl e, self') \<Longrightarrow> self' = self"
  by (auto simp: process_sale_def Let_def mul_float_int_cases split: option.splits if_splits)

lemma process_sale_returns:
  assumes "process_sale self now cid qty stype = (Inr r, self')"
  obtains c where "map_of (computers self) cid = Some c" and "qty \<le> stock c"
    and "float_range qty"
    and "r = \<lparr>date = now, computer_id = cid, quantity = qty,
               sale_type = SaleType_value stype,
               total_price = (if stype = WHOLESALE then wholesale_price c else retail_price c) * of_int qty,
               unit_price = (if stype = WHOLESALE then wholesale_price c else retail_price c)\<rparr>"
    and "self' = self\<lparr>computers := AList.update cid (c\<lparr>stock := stock c - qty\<rparr>) (computers self),
                       sales_history := sales_history self @ [r]\<rparr>"
  using assms
  by (auto simp: process_sale_def Let_def mul_float_int_cases split: option.splits if_splits)

lemma process_sale_stock_nonneg:
  assumes "all_stock_nonneg self" and "process_sale self now cid qty stype = (Inr r, self')"
  shows "all_stock_nonneg self'"
proof -
  from assms(2) obtain c where c: "qty \<le> stock c"
    and s: "self' = self\<lparr>computers := AList.update cid (c\<lparr>stock := stock c - qty\<rparr>) (computers self),
                       sales_history := sales_history self @ [r]\<rparr>"
    by (rule process_sale_returns)
  from assms(1) c show ?thesis
    unfolding s all_stock_nonneg_def by (simp add: list_all_update)
qed

lemma SaleType_value_inj: "SaleType_value a = SaleType_value b \<longleftrightarrow> a = b"
  by (cases a; cases b) simp_all

section \<open>Sales\<close>

text \<open>
  C1. Take an inventory in which no item has negative stock and a sequence of calls of
  \<open>process_sale\<close>, each with a positive quantity. If every call of the sequence
  succeeds, no item has negative stock in the inventory after the last call.
\<close>

theorem stock_never_negative:
  assumes "all_stock_nonneg self"
    and "quantities_positive calls"
    and "process_sales self calls = Inr self'"
  shows "all_stock_nonneg self'"
  using assms
proof (induction calls arbitrary: self)
  case Nil
  then show ?case by simp
next
  case (Cons call calls)
  obtain now cid qty stype where call: "call = (now, cid, qty, stype)"
    by (cases call) auto
  from Cons.prems(3) obtain r mid where
    step: "process_sale self now cid qty stype = (Inr r, mid)" and
    rest: "process_sales mid calls = Inr self'"
    by (auto simp: call split: prod.splits sum.splits)
  from Cons.prems(1) step have "all_stock_nonneg mid"
    by (rule process_sale_stock_nonneg)
  moreover from Cons.prems(2) have "quantities_positive calls"
    by (simp add: quantities_positive_def)
  ultimately show ?case using rest by (rule Cons.IH)
qed

theorem stock_never_negative_witness:
  "all_stock_nonneg sample_inventory
   \<and> quantities_positive sample_calls
   \<and> process_sales sample_inventory sample_calls = Inr sample_after_sales
   \<and> all_stock_nonneg sample_after_sales
   \<and> map (\<lambda>(k, c). stock c) (computers sample_after_sales) = [6]"
  using stock_never_negative [of sample_inventory sample_calls sample_after_sales]
  by (simp add: sample_defs sample_calls_def all_stock_nonneg_def quantities_positive_def)

text \<open>
  C3. For an id that is not a key of the catalog, whatever the quantity, the sale type
  and the clock reading, \<open>process_sale\<close> raises \<^verbatim>\<open>ValueError("Computer not found")\<close>, the
  error the specification calls ItemNotFound, and the inventory after the call, catalog
  and ledger, is the inventory before it.
\<close>

theorem process_sale_missing_id:
  assumes "cid \<notin> fst ` set (computers self)"
  shows "process_sale self now cid qty stype = (Inl (ValueError ''Computer not found''), self)"
proof -
  from assms have "map_of (computers self) cid = None"
    by (simp add: map_of_eq_None_iff)
  then show ?thesis
    by (simp add: process_sale_def)
qed

theorem process_sale_missing_id_witness:
  "''UNKNOWN'' \<notin> fst ` set (computers sample_after_sales)
   \<and> process_sale sample_after_sales 3000 ''UNKNOWN'' 1 RETAIL
       = (Inl (ValueError ''Computer not found''), sample_after_sales)"
  using process_sale_missing_id [of "''UNKNOWN''" sample_after_sales 3000 1 RETAIL]
  by (simp add: sample_defs)

text \<open>
  C2. The record that a successful call of \<open>process_sale\<close> returns, which is also the
  record it appends to the ledger: its \<open>unit_price\<close> is the wholesale price of the item
  when the sale type is \<open>WHOLESALE\<close> and the retail price otherwise, its \<open>total_price\<close>
  is its \<open>unit_price\<close> times its \<open>quantity\<close>, and its \<open>quantity\<close>, \<open>computer_id\<close> and
  \<open>sale_type\<close> are the arguments of the call, the sale type as its string value (which
  determines the member, \<open>SaleType_value_inj\<close>).
\<close>

theorem sale_record_fields:
  assumes "process_sale self now cid qty stype = (Inr r, self')"
  shows "\<exists>c. map_of (computers self) cid = Some c
           \<and> unit_price r = (if stype = WHOLESALE then wholesale_price c else retail_price c)
           \<and> total_price r = unit_price r * of_int (quantity r)
           \<and> quantity r = qty \<and> computer_id r = cid \<and> sale_type r = SaleType_value stype
           \<and> sales_history self' = sales_history self @ [r]"
proof -
  from assms obtain c where "map_of (computers self) cid = Some c"
    and "r = \<lparr>date = now, computer_id = cid, quantity = qty,
               sale_type = SaleType_value stype,
               total_price = (if stype = WHOLESALE then wholesale_price c else retail_price c) * of_int qty,
               unit_price = (if stype = WHOLESALE then wholesale_price c else retail_price c)\<rparr>"
    and "self' = self\<lparr>computers := AList.update cid (c\<lparr>stock := stock c - qty\<rparr>) (computers self),
                       sales_history := sales_history self @ [r]\<rparr>"
    by (rule process_sale_returns)
  then show ?thesis by simp
qed

theorem sale_record_fields_witness:
  "process_sale sample_inventory 1000 ''LP001'' 3 WHOLESALE =
     (Inr \<lparr>date = 1000, computer_id = ''LP001'', quantity = 3, sale_type = ''wholesale'',
            total_price = 2400, unit_price = 800\<rparr>,
      snd (process_sale sample_inventory 1000 ''LP001'' 3 WHOLESALE))
   \<and> (\<exists>c. map_of (computers sample_inventory) ''LP001'' = Some c
           \<and> (800::real) = (if WHOLESALE = WHOLESALE then wholesale_price c else retail_price c)
           \<and> (2400::real) = 800 * of_int 3)"
  using sale_record_fields [of sample_inventory 1000 "''LP001''" 3 WHOLESALE
      "\<lparr>date = 1000, computer_id = ''LP001'', quantity = 3, sale_type = ''wholesale'',
            total_price = 2400, unit_price = 800\<rparr>"
      "snd (process_sale sample_inventory 1000 ''LP001'' 3 WHOLESALE)"]
  by (simp add: sample_defs)

text \<open>
  C4, as the specification states it, fails in its last part: with stock \<open>2 ^ 1024\<close> and
  a quantity equal to the stock, the check of line 47 passes and the product of line 54
  raises \<^verbatim>\<open>OverflowError\<close>, so the sale does not succeed.
\<close>

theorem process_sale_stock_equal_counterexample:
  "map_of (computers restocked) ''LP001'' = Some (sample_computer\<lparr>stock := 2 ^ 1024\<rparr>)
   \<and> process_sale restocked 1000 ''LP001'' (2 ^ 1024) RETAIL = (Inl (OverflowError ''int too large to convert to float''), restocked)"
  by (simp add: sample_defs restocked_def update_stock_def)

text \<open>
  C4, amended. For an item of the catalog: a call of \<open>process_sale\<close> whose quantity
  exceeds the item's stock raises \<^verbatim>\<open>ValueError("Insufficient stock")\<close>, the error the
  specification calls InsufficientStock, and the inventory after the call is the
  inventory before it; a call whose quantity equals the stock and converts to a float
  succeeds and leaves the item with stock 0.
\<close>

theorem process_sale_stock_check:
  assumes "map_of (computers self) cid = Some c"
  shows "(stock c < qty \<longrightarrow>
            process_sale self now cid qty stype = (Inl (ValueError ''Insufficient stock''), self))
       \<and> (stock c = qty \<and> float_range qty \<longrightarrow>
            (\<exists>r self'. process_sale self now cid qty stype = (Inr r, self')
               \<and> map_of (computers self') = (map_of (computers self))(cid \<mapsto> c\<lparr>stock := 0\<rparr>)))"
  using assms by (simp add: process_sale_def Let_def mul_float_int_cases AList.update_conv')

theorem process_sale_stock_check_witness:
  "map_of (computers sample_after_sales) ''LP001'' = Some (sample_computer\<lparr>stock := 6\<rparr>)
   \<and> float_range 6
   \<and> process_sale sample_after_sales 3000 ''LP001'' 100 RETAIL
        = (Inl (ValueError ''Insufficient stock''), sample_after_sales)
   \<and> (\<exists>r self'. process_sale sample_after_sales 3000 ''LP001'' 6 RETAIL = (Inr r, self')
         \<and> map_of (computers self') ''LP001'' = Some (sample_computer\<lparr>stock := 0\<rparr>))"
  using process_sale_stock_check [of sample_after_sales "''LP001''" "sample_computer\<lparr>stock := 6\<rparr>" 100 3000 RETAIL]
    process_sale_stock_check [of sample_after_sales "''LP001''" "sample_computer\<lparr>stock := 6\<rparr>" 6 3000 RETAIL]
  by (simp add: sample_defs)

text \<open>
  C10, as stated, fails: on the inventory of \<^verbatim>\<open>main\<close> the item exists and its stock, 10,
  is not less than the quantity \<open>- (10 ^ 400)\<close>, and the call raises all the same, the
  \<^verbatim>\<open>OverflowError\<close> of the product of line 54.
\<close>

theorem process_sale_overflow_counterexample:
  "map_of (computers sample_inventory) ''LP001'' = Some sample_computer
   \<and> \<not> stock sample_computer < - (10 ^ 400)
   \<and> process_sale sample_inventory 1000 ''LP001'' (- (10 ^ 400)) RETAIL
       = (Inl (OverflowError ''int too large to convert to float''), sample_inventory)"
  by (simp add: sample_defs)

text \<open>
  C10, amended. \<open>process_sale\<close> does not look at the sign of the quantity. For a quantity
  that converts to a float it raises exactly when the id is not in the catalog or the
  item's stock is less than the quantity. For an item of the catalog, a call with such a
  quantity that is zero or negative and at most the stock succeeds, appends its record
  to the ledger and sets the stock to the old stock minus the quantity, which is more
  than the old stock when the quantity is negative.
\<close>

theorem process_sale_raises_iff:
  assumes "float_range qty"
  shows "(isl (fst (process_sale self now cid qty stype)) \<longleftrightarrow>
      (case map_of (computers self) cid of None \<Rightarrow> True | Some c \<Rightarrow> stock c < qty))
   \<and> (\<forall>c. map_of (computers self) cid = Some c \<and> qty \<le> 0 \<and> qty \<le> stock c \<longrightarrow>
        (\<exists>r self'. process_sale self now cid qty stype = (Inr r, self')
           \<and> quantity r = qty
           \<and> sales_history self' = sales_history self @ [r]
           \<and> map_of (computers self') = (map_of (computers self))(cid \<mapsto> c\<lparr>stock := stock c - qty\<rparr>)
           \<and> stock c \<le> stock c - qty
           \<and> (qty < 0 \<longrightarrow> stock c < stock c - qty)))"
  using assms
  by (auto simp: process_sale_def Let_def mul_float_int_cases AList.update_conv'
        split: option.splits)

theorem process_sale_raises_iff_witness:
  "float_range (- 2) \<and> float_range 0
   \<and> \<not> isl (fst (process_sale sample_inventory 1000 ''LP001'' (- 2) RETAIL))
   \<and> (\<exists>r self'. process_sale sample_inventory 1000 ''LP001'' (- 2) RETAIL = (Inr r, self')
         \<and> quantity r = - 2 \<and> total_price r = - 2400
         \<and> sales_history self' = [r]
         \<and> map_of (computers self') ''LP001'' = Some (sample_computer\<lparr>stock := 12\<rparr>))
   \<and> (\<exists>r self'. process_sale sample_inventory 1000 ''LP001'' 0 RETAIL = (Inr r, self')
         \<and> quantity r = 0 \<and> total_price r = 0
         \<and> sales_history self' = [r]
         \<and> map_of (computers self') ''LP001'' = Some sample_computer)"
  using process_sale_raises_iff [of "- 2" sample_inventory 1000 "''LP001''" RETAIL]
    process_sale_raises_iff [of 0 sample_inventory 1000 "''LP001''" RETAIL]
  by (simp add: sample_defs)

text \<open>
  C9, as the specification states it, fails: the arguments of \<open>process_sale\<close> are the id,
  the quantity and the sale type, and two calls from the same inventory with the same
  arguments return different records when the wall clock reads differently.
\<close>

theorem process_sale_same_arguments_counterexample:
  "fst (process_sale sample_inventory 1000 ''LP001'' 3 WHOLESALE)
     \<noteq> fst (process_sale sample_inventory 2000 ''LP001'' 3 WHOLESALE)"
  by (simp add: sample_defs)

text \<open>
  C9, amended. The \<open>date\<close> of the record is the reading of the wall clock taken inside
  \<open>process_sale\<close>. From the same inventory and with the same arguments, a call at the
  reading \<open>now'\<close> raises the same error as a call at the reading \<open>now\<close>, or both succeed
  and the records and the resulting inventories are the same except for the \<open>date\<close> of
  the new record, which is each call's own reading; they are identical when the readings
  are equal.
\<close>

theorem process_sale_clock_reading:
  "(case process_sale self now cid qty stype of
      (Inl e, s) \<Rightarrow> s = self \<and> process_sale self now' cid qty stype = (Inl e, self)
    | (Inr r, s) \<Rightarrow>
        date r = now
        \<and> sales_history s = sales_history self @ [r]
        \<and> process_sale self now' cid qty stype =
            (Inr (r\<lparr>date := now'\<rparr>), s\<lparr>sales_history := sales_history self @ [r\<lparr>date := now'\<rparr>]\<rparr>))"
  by (simp add: process_sale_def Let_def mul_float_int_cases split: option.splits)

theorem process_sale_clock_reading_witness:
  "process_sale sample_inventory 1000 ''LP001'' 3 WHOLESALE =
     (Inr \<lparr>date = 1000, computer_id = ''LP001'', quantity = 3, sale_type = ''wholesale'',
            total_price = 2400, unit_price = 800\<rparr>,
      \<lparr>computers = [(''LP001'', sample_computer\<lparr>stock := 7\<rparr>)],
       sales_history = [\<lparr>date = 1000, computer_id = ''LP001'', quantity = 3,
                          sale_type = ''wholesale'', total_price = 2400, unit_price = 800\<rparr>]\<rparr>)
   \<and> process_sale sample_inventory 2000 ''LP001'' 3 WHOLESALE =
     (Inr \<lparr>date = 2000, computer_id = ''LP001'', quantity = 3, sale_type = ''wholesale'',
            total_price = 2400, unit_price = 800\<rparr>,
      \<lparr>computers = [(''LP001'', sample_computer\<lparr>stock := 7\<rparr>)],
       sales_history = [\<lparr>date = 2000, computer_id = ''LP001'', quantity = 3,
                          sale_type = ''wholesale'', total_price = 2400, unit_price = 800\<rparr>]\<rparr>)"
  using process_sale_clock_reading [of sample_inventory 1000 "''LP001''" 3 WHOLESALE 2000]
  by (simp add: sample_defs)

section \<open>Stock adjustment\<close>

text \<open>
  C8. \<open>update_stock\<close>, for every id and every amount \<open>delta\<close> of either sign: when the
  item exists its stock becomes the old stock plus \<open>delta\<close>, with no check of the result,
  so that a \<open>delta\<close> below minus the stock leaves negative stock, the other items and the
  ledger are as before, and the call returns \<open>True\<close>; when the item does not exist the
  call returns \<open>False\<close> and the inventory is as before.
\<close>

theorem update_stock_no_bounds_check:
  "(map_of (computers self) cid = Some c \<longrightarrow>
      (\<exists>self'. update_stock self cid delta = (True, self')
         \<and> map_of (computers self') = (map_of (computers self))(cid \<mapsto> c\<lparr>stock := stock c + delta\<rparr>)
         \<and> sales_history self' = sales_history self
         \<and> (delta < - stock c \<longrightarrow>
              (\<exists>c'. map_of (computers self') cid = Some c' \<and> stock c' < 0))))
   \<and> (map_of (computers self) cid = None \<longrightarrow> update_stock self cid delta = (False, self))"
  by (simp add: update_stock_def AList.update_conv')

theorem update_stock_no_bounds_check_witness:
  "map_of (computers sample_inventory) ''LP001'' = Some sample_computer
   \<and> (\<exists>self'. update_stock sample_inventory ''LP001'' (- 11) = (True, self')
         \<and> map_of (computers self') ''LP001'' = Some (sample_computer\<lparr>stock := - 1\<rparr>))
   \<and> map_of (computers sample_inventory) ''UNKNOWN'' = None
   \<and> update_stock sample_inventory ''UNKNOWN'' 5 = (False, sample_inventory)"
  using update_stock_no_bounds_check [of sample_inventory "''LP001''" sample_computer "- 11"]
    update_stock_no_bounds_check [of sample_inventory "''UNKNOWN''" sample_computer 5]
  by (simp add: sample_defs update_stock_def)

section \<open>Reports\<close>

text \<open>
  The keys of the catalog stay distinct: they are in the empty inventory, and every
  operation keeps them so.
\<close>

lemma unique_ids_init: "unique_ids init"
  by (simp add: unique_ids_def init_def)

lemma unique_ids_add_computer: "unique_ids self \<Longrightarrow> unique_ids (add_computer self computer)"
  by (simp add: unique_ids_def add_computer_def distinct_update)

lemma unique_ids_remove_computer: "unique_ids self \<Longrightarrow> unique_ids (remove_computer self cid)"
  by (simp add: unique_ids_def remove_computer_def distinct_delete)

lemma unique_ids_update_stock: "unique_ids self \<Longrightarrow> unique_ids (snd (update_stock self cid qty))"
  by (simp add: unique_ids_def update_stock_def distinct_update split: option.splits)

lemma unique_ids_process_sale:
  "unique_ids self \<Longrightarrow> unique_ids (snd (process_sale self now cid qty stype))"
  by (simp add: unique_ids_def process_sale_def Let_def mul_float_int_cases distinct_update
        split: option.splits)

text \<open>
  With distinct keys, a sum over the values of the association list is the sum over
  the items of the map, and the length of the list is the number of keys.
\<close>

lemma values_by_key:
  assumes "distinct (map fst al)"
  shows "map f (map snd al) = map (\<lambda>k. f (the (map_of al k))) (map fst al)"
proof -
  have "f (snd p) = f (the (map_of al (fst p)))" if "p \<in> set al" for p
  proof -
    from that have "(fst p, snd p) \<in> set al" by simp
    with assms have "map_of al (fst p) = Some (snd p)" by (rule map_of_is_SomeI)
    then show ?thesis by simp
  qed
  then show ?thesis by simp
qed

lemma sum_list_values:
  fixes f :: "Computer \<Rightarrow> 'a::comm_monoid_add"
  assumes "distinct (map fst al)"
  shows "sum_list (map f (map snd al)) = over_items (map_of al) f"
proof -
  have "sum_list (map f (map snd al)) = sum_list (map (\<lambda>k. f (the (map_of al k))) (map fst al))"
    using assms by (simp only: values_by_key)
  also have "\<dots> = (\<Sum>k \<in> set (map fst al). f (the (map_of al k)))"
    using assms by (rule sum_list_distinct_conv_sum_set)
  also have "set (map fst al) = dom (map_of al)"
    by (simp add: dom_map_of_conv_image_fst)
  finally show ?thesis by (simp add: over_items_def)
qed

lemma length_keys:
  assumes "distinct (map fst al)"
  shows "length al = card (dom (map_of al))"
proof -
  from assms have "card (set (map fst al)) = length (map fst al)" by (rule distinct_card)
  then show ?thesis by (simp add: dom_map_of_conv_image_fst)
qed

text \<open>
  The sum of the products: when every stock converts to a float no product raises and
  the sum is that of the list; the report leaves the inventory as it was, whether it
  returns or raises.
\<close>

lemma sum_from_float_range:
  assumes "list_all (\<lambda>c. float_range (stock c)) cs"
  shows "sum_from acc (\<lambda>c. mul_int_float (stock c) (g c)) cs
           = Inr (acc + sum_list (map (\<lambda>c. of_int (stock c) * g c) cs))"
  using assms by (induction cs arbitrary: acc) (simp_all add: mul_int_float_cases add.assoc)

lemma values_float_range:
  "stocks_in_float_range self \<Longrightarrow> list_all (\<lambda>c. float_range (stock c)) (map snd (computers self))"
  by (auto simp: stocks_in_float_range_def list_all_iff)

lemma get_inventory_report_reads:
  "snd (get_inventory_report self) = self"
  by (simp add: get_inventory_report_def Let_def split: sum.splits)

text \<open>
  C5, as the specification states it, fails: after \<^verbatim>\<open>update_stock\<close> has brought the stock
  of the computer of \<^verbatim>\<open>main\<close> to \<open>2 ^ 1024\<close>, \<open>get_inventory_report\<close> returns no report; the
  product \<^verbatim>\<open>c.stock * c.wholesale_price\<close> raises \<^verbatim>\<open>OverflowError\<close>.
\<close>

theorem get_inventory_report_overflow_counterexample:
  "unique_ids restocked
   \<and> get_inventory_report restocked = (Inl (OverflowError ''int too large to convert to float''), restocked)"
  by (simp add: sample_defs restocked_def update_stock_def unique_ids_def
        get_inventory_report_def mul_int_float_def)

text \<open>
  C5, amended. \<open>get_inventory_report\<close> never changes the inventory, catalog or ledger.
  When the stock of every item converts to a float, it returns the number of distinct
  items of the catalog, the sum of \<open>stock\<close> over all items, the sum of \<open>stock\<close> times
  \<open>wholesale_price\<close> over all items and the sum of \<open>stock\<close> times \<open>retail_price\<close> over all
  items.
\<close>

theorem get_inventory_report_totals:
  "snd (get_inventory_report self) = self
   \<and> (unique_ids self \<and> stocks_in_float_range self \<longrightarrow>
        fst (get_inventory_report self) =
          Inr \<lparr>total_computers = card (dom (catalog self)),
               total_stock = over_items (catalog self) stock,
               total_wholesale_value =
                 over_items (catalog self) (\<lambda>c. of_int (stock c) * wholesale_price c),
               total_retail_value =
                 over_items (catalog self) (\<lambda>c. of_int (stock c) * retail_price c)\<rparr>)"
proof (intro conjI impI)
  show "snd (get_inventory_report self) = self"
    by (rule get_inventory_report_reads)
next
  assume a: "unique_ids self \<and> stocks_in_float_range self"
  then have d: "distinct (map fst (computers self))"
    by (simp add: unique_ids_def)
  from a have r: "list_all (\<lambda>c. float_range (stock c)) (map snd (computers self))"
    by (simp add: values_float_range)
  have w: "sum_from 0 (\<lambda>c. mul_int_float (stock c) (g c)) (map snd (computers self))
             = Inr (over_items (catalog self) (\<lambda>c. of_int (stock c) * g c))" for g
    using sum_from_float_range [OF r, of 0 g] sum_list_values [OF d, of "\<lambda>c. of_int (stock c) * g c"]
    by (simp add: catalog_def)
  have u: "sum_list (map (\<lambda>c. stock c) (map snd (computers self))) = over_items (catalog self) stock"
    using sum_list_values [OF d, of stock] by (simp add: catalog_def)
  have n: "length (computers self) = card (dom (catalog self))"
    using length_keys [OF d] by (simp add: catalog_def)
  show "fst (get_inventory_report self) =
          Inr \<lparr>total_computers = card (dom (catalog self)),
               total_stock = over_items (catalog self) stock,
               total_wholesale_value =
                 over_items (catalog self) (\<lambda>c. of_int (stock c) * wholesale_price c),
               total_retail_value =
                 over_items (catalog self) (\<lambda>c. of_int (stock c) * retail_price c)\<rparr>"
    unfolding get_inventory_report_def Let_def
    by (simp only: w u n sum.case fst_conv)
qed

theorem get_inventory_report_totals_witness:
  "unique_ids two_computers \<and> stocks_in_float_range two_computers
   \<and> get_inventory_report two_computers =
       (Inr \<lparr>total_computers = 2, total_stock = 10,
             total_wholesale_value = 6800, total_retail_value = 10200\<rparr>, two_computers)
   \<and> card (dom (catalog two_computers)) = 2
   \<and> over_items (catalog two_computers) stock = 10"
  using get_inventory_report_totals [of two_computers]
  by (simp add: sample_defs two_computers_def second_computer_def unique_ids_def
        stocks_in_float_range_def get_inventory_report_def mul_int_float_def)

text \<open>
  A sum over the records that a filter keeps is the sum over the positions of the
  records that pass the test; a filter with a weaker test keeps at least as many
  records; the default of \<^verbatim>\<open>start_date\<close> is the least datetime.
\<close>

lemma sum_list_filter_positions:
  fixes f :: "'a \<Rightarrow> real"
  shows "sum_list (map f (filter P xs)) = (\<Sum>i \<in> {i. i < length xs \<and> P (xs ! i)}. f (xs ! i))"
proof -
  have "sum_list (map f (filter P xs)) = sum_list (map (\<lambda>x. if P x then f x else 0) xs)"
    by (rule sum_list_map_filter')
  also have "\<dots> = (\<Sum>i = 0..<length xs. if P (xs ! i) then f (xs ! i) else 0)"
    by (simp add: sum_list_sum_nth)
  also have "\<dots> = (\<Sum>i \<in> {i \<in> {0..<length xs}. P (xs ! i)}. f (xs ! i))"
    by (rule sum.inter_filter [symmetric]) simp
  also have "{i \<in> {0..<length xs}. P (xs ! i)} = {i. i < length xs \<and> P (xs ! i)}"
    by auto
  finally show ?thesis .
qed

lemma length_filter_mono:
  assumes "\<And>x. P x \<Longrightarrow> Q x"
  shows "length (filter P xs) \<le> length (filter Q xs)"
  using assms by (induction xs) auto

lemma get_sales_report_default:
  "get_sales_report self None = get_sales_report self (Some datetime_min)"
  by (simp add: get_sales_report_def)

text \<open>
  C6. For every start time \<open>t\<close>, \<open>get_sales_report\<close> counts exactly the records of the
  ledger with \<open>date\<close> at or after \<open>t\<close>, with no upper bound; its wholesale revenue is the
  sum of \<open>total_price\<close> over those of them with sale type wholesale, its retail revenue
  the sum over those with sale type retail, and its total revenue the sum of the two.
  The inventory is as before.
\<close>

theorem get_sales_report_totals:
  "get_sales_report self (Some t) =
     (\<lparr>total_sales = card (since (sales_history self) t),
       wholesale_revenue = revenue (sales_history self) (since_of_type (sales_history self) t WHOLESALE),
       retail_revenue = revenue (sales_history self) (since_of_type (sales_history self) t RETAIL),
       total_revenue =
         revenue (sales_history self) (since_of_type (sales_history self) t WHOLESALE)
         + revenue (sales_history self) (since_of_type (sales_history self) t RETAIL)\<rparr>,
      self)"
proof -
  let ?h = "sales_history self"
  have n: "length (filter (\<lambda>sale. t \<le> date sale) ?h) = card (since ?h t)"
    by (simp add: since_def length_filter_conv_card)
  have r: "sum_list (map total_price
              (filter (\<lambda>sale. sale_type sale = SaleType_value stype)
                 (filter (\<lambda>sale. t \<le> date sale) ?h)))
           = revenue ?h (since_of_type ?h t stype)" for stype
    by (simp add: revenue_def since_of_type_def sum_list_filter_positions)
  show ?thesis
    unfolding get_sales_report_def Let_def
    by (simp only: option.case n r)
qed

theorem get_sales_report_totals_witness:
  "get_sales_report sample_after_sales (Some 1500) =
     (\<lparr>total_sales = 1, wholesale_revenue = 0, retail_revenue = 1200, total_revenue = 1200\<rparr>,
      sample_after_sales)
   \<and> card (since (sales_history sample_after_sales) 1500) = 1
   \<and> revenue (sales_history sample_after_sales)
        (since_of_type (sales_history sample_after_sales) 1500 RETAIL) = 1200
   \<and> get_sales_report sample_after_sales (Some 1000) =
     (\<lparr>total_sales = 2, wholesale_revenue = 2400, retail_revenue = 1200, total_revenue = 3600\<rparr>,
      sample_after_sales)"
  using get_sales_report_totals [of sample_after_sales 1500]
  by (simp add: sample_defs get_sales_report_def)

text \<open>
  C7. For a fixed ledger and start times \<open>t1 \<le> t2\<close>, the report from \<open>t2\<close> counts at most
  as many sales as the report from \<open>t1\<close>.
\<close>

theorem get_sales_report_antitone:
  assumes "t1 \<le> t2"
  shows "total_sales (fst (get_sales_report self (Some t2)))
           \<le> total_sales (fst (get_sales_report self (Some t1)))"
proof -
  have "length (filter (\<lambda>sale. t2 \<le> date sale) (sales_history self))
          \<le> length (filter (\<lambda>sale. t1 \<le> date sale) (sales_history self))"
    using assms by (intro length_filter_mono) simp
  then show ?thesis
    by (simp add: get_sales_report_def Let_def)
qed

theorem get_sales_report_antitone_witness:
  "(500::nat) \<le> 1500
   \<and> total_sales (fst (get_sales_report sample_after_sales (Some 1500))) = 1
   \<and> total_sales (fst (get_sales_report sample_after_sales (Some 500))) = 2
   \<and> total_sales (fst (get_sales_report sample_after_sales (Some 1500)))
        \<le> total_sales (fst (get_sales_report sample_after_sales (Some 500)))"
  using get_sales_report_antitone [of 500 1500 sample_after_sales]
  by (simp add: sample_defs get_sales_report_def)

end
